theory Spec2Isabelle
  imports Complex_Main "HOL-Library.AList"
begin

section \<open>Shared types (src/domain/types.py)\<close>

text \<open>
  Python floats are modelled as reals, with the one infinite value the code produces
  (\<open>float("inf")\<close>) as a separate constructor where it can occur. Wall-clock readings
  (\<open>datetime.now\<close>) are passed in as an integer parameter \<open>now\<close>. A raised exception is
  a value of \<open>py_error\<close>. Logging is not modelled.

  Names are those of the source. A private method loses its leading underscore
  (\<open>_finalize\<close> of the truth engine is \<open>truth_finalize\<close>, next to \<open>finalize\<close> of the
  trading engine). Where classes share a field name the field carries a prefix: \<open>fill_\<close>
  (Fill), \<open>lvl_\<close> (OrderBookLevel), \<open>ob_\<close> (OrderBook), \<open>me_\<close> (MatchEvent), \<open>td_\<close>
  (TruthDelta), \<open>tf_\<close> (TruthFinal), \<open>ts_\<close> (TruthState), \<open>ord_\<close> (Order), \<open>oi_\<close>
  (OrderIntent), \<open>ci_\<close> (CancelIntent), \<open>tr_\<close> (TradingState), \<open>eng_\<close> (TradingEngine).
  The event type \<open>PAUSED\<close> is \<open>EV_PAUSED\<close>, beside the status \<open>PAUSED\<close>.
\<close>

datatype py_error = ValueError | ZeroDivisionError

datatype efloat = Finite real | PosInf

datatype Side = YES | NO

datatype TruthStatus = PRE_MATCH | LIVE | PAUSED | PENDING_CONFIRM | FINAL

datatype TradingStatus =
  IDLE | BUILDING_PAIR | LOCKED_PAIR | TEMPORAL_ACTIVE | FINALIZING | RESOLVED | HALT

datatype OrderStatus =
  PENDING | PLACED | MATCHED | MINED | CONFIRMED | REJECTED | CANCELLED | FAILED

datatype FillType = FULL | PARTIAL

datatype MatchEventType =
  MATCH_CREATED | MATCH_STARTED | EV_PAUSED | RESUMED | MAP_STARTED | ROUND_ENDED
  | MAP_ENDED | SCORE_UPDATE | MATCH_ENDED | CORRECTION

datatype DataSourceTier = TIER_A | TIER_B | TIER_C

subsection \<open>Fill and PairPosition\<close>

record Fill =
  fill_side :: Side
  fill_qty :: real
  fill_price :: real
  fill_ts_ms :: int
  fill_type :: FillType
  fill_order_id :: "string option"

record PairPosition =
  pos_market_id :: string
  fee_rate :: real
  q_yes :: real
  q_no :: real
  c_yes :: real
  c_no :: real
  first_fill_at :: "int option"
  last_fill_at :: "int option"

text \<open>
  \<open>apply_fill\<close> mutates the receiver. The model returns the outcome of the call
  (\<open>None\<close>: returned normally, \<open>Some e\<close>: raised \<open>e\<close>) together with the receiver as
  it is after the call. The price check raises before any field is assigned.
\<close>

definition apply_fill :: "int \<Rightarrow> Fill \<Rightarrow> PairPosition \<Rightarrow> py_error option \<times> PairPosition" where
  "apply_fill now fill self =
     (if fill_qty fill \<le> 0 then (None, self)
      else if \<not> (0 \<le> fill_price fill \<and> fill_price fill \<le> 1) then (Some ValueError, self)
      else
        let s1 = (if first_fill_at self = None then self\<lparr>first_fill_at := Some now\<rparr> else self);
            s2 = s1\<lparr>last_fill_at := Some now\<rparr>
        in if fill_side fill = YES
           then (None, s2\<lparr>q_yes := q_yes s2 + fill_qty fill,
                          c_yes := c_yes s2 + fill_qty fill * fill_price fill\<rparr>)
           else (None, s2\<lparr>q_no := q_no s2 + fill_qty fill,
                          c_no := c_no s2 + fill_qty fill * fill_price fill\<rparr>))"

definition total_cost :: "PairPosition \<Rightarrow> real" where
  "total_cost self = c_yes self + c_no self"

definition q_min :: "PairPosition \<Rightarrow> real" where
  "q_min self = min (q_yes self) (q_no self)"

definition payout_net :: "PairPosition \<Rightarrow> real" where
  "payout_net self = q_min self * (1 - fee_rate self)"

definition guaranteed_pnl :: "PairPosition \<Rightarrow> real" where
  "guaranteed_pnl self = payout_net self - total_cost self"

definition avg_yes :: "PairPosition \<Rightarrow> real option" where
  "avg_yes self = (if q_yes self \<le> 0 then None else Some (c_yes self / q_yes self))"

definition avg_no :: "PairPosition \<Rightarrow> real option" where
  "avg_no self = (if q_no self \<le> 0 then None else Some (c_no self / q_no self))"

definition pair_cost_avg :: "PairPosition \<Rightarrow> real option" where
  "pair_cost_avg self =
     (case (avg_yes self, avg_no self) of
        (Some ay, Some an) \<Rightarrow> Some (ay + an)
      | _ \<Rightarrow> None)"

definition leg_imbalance_usdc :: "PairPosition \<Rightarrow> real" where
  "leg_imbalance_usdc self = \<bar>c_yes self - c_no self\<bar>"

definition leg_imbalance_shares :: "PairPosition \<Rightarrow> real" where
  "leg_imbalance_shares self = \<bar>q_yes self - q_no self\<bar>"

definition copy :: "PairPosition \<Rightarrow> PairPosition" where
  "copy self =
     \<lparr>pos_market_id = pos_market_id self, fee_rate = fee_rate self,
      q_yes = q_yes self, q_no = q_no self, c_yes = c_yes self, c_no = c_no self,
      first_fill_at = first_fill_at self, last_fill_at = last_fill_at self\<rparr>"

text \<open>
  \<open>hypo_buy\<close> works on a copy, so the receiver is not part of the result. The synthetic
  fill takes the dataclass defaults for the fields not given. An exception of
  \<open>apply_fill\<close> is not caught.
\<close>

definition hypo_buy :: "int \<Rightarrow> PairPosition \<Rightarrow> Side \<Rightarrow> real \<Rightarrow> real \<Rightarrow> py_error + PairPosition" where
  "hypo_buy now self side usdc_amount price =
     (if usdc_amount \<le> 0 \<or> price \<le> 0 then Inr (copy self)
      else
        let qty = usdc_amount / price;
            new_pos = copy self
        in case apply_fill now
                  \<lparr>fill_side = side, fill_qty = qty, fill_price = price, fill_ts_ms = 0,
                   fill_type = FULL, fill_order_id = None\<rparr> new_pos of
             (Some e, _) \<Rightarrow> Inl e
           | (None, new_pos') \<Rightarrow> Inr new_pos')"

fun efloat_gt :: "real \<Rightarrow> efloat \<Rightarrow> bool" where
  "efloat_gt x (Finite b) = (x > b)"
| "efloat_gt x PosInf = False"

text \<open>
  \<open>should_buy_more\<close>: the keyword arguments are passed in the order \<open>pair_cost_cap\<close>,
  \<open>max_total_cost\<close>, \<open>max_leg_imbalance_usdc\<close> (default \<open>float("inf")\<close>, here \<open>PosInf\<close>),
  \<open>require_improve\<close>. The comparison \<open>x > max_leg_imbalance_usdc\<close> against the possibly
  infinite bound is \<open>efloat_gt\<close>. The checks after the pair-cost block are bound to
  \<open>rest\<close>, which both ways out of that block continue with.
\<close>

definition should_buy_more ::
  "int \<Rightarrow> PairPosition \<Rightarrow> Side \<Rightarrow> real \<Rightarrow> real \<Rightarrow> real \<Rightarrow> real \<Rightarrow> efloat \<Rightarrow> bool
     \<Rightarrow> py_error + (bool \<times> string)" where
  "should_buy_more now pos side usdc_amount price pair_cost_cap max_total_cost
       max_leg_imbalance_usdc require_improve =
     (if usdc_amount \<le> 0 then Inr (False, ''zero_amount'')
      else if total_cost pos + usdc_amount > max_total_cost
        then Inr (False, ''exceeds_max_total'')
      else case hypo_buy now pos side usdc_amount price of
        Inl e \<Rightarrow> Inl e
      | Inr new_pos \<Rightarrow>
          let rest =
                (if efloat_gt (leg_imbalance_usdc new_pos) max_leg_imbalance_usdc
                   then Inr (False, ''leg_imbalance'')
                 else if require_improve \<and> guaranteed_pnl new_pos \<le> guaranteed_pnl pos
                   then Inr (False, ''no_pnl_improvement'')
                 else Inr (True, ''approved''))
          in (case pair_cost_avg new_pos of
                None \<Rightarrow> rest
              | Some pc \<Rightarrow>
                  let net_cap = 1 - fee_rate new_pos
                  in if pc \<ge> net_cap then Inr (False, ''pair_cost_exceeds_net'')
                     else if pc \<ge> pair_cost_cap then Inr (False, ''pair_cost_exceeds_cap'')
                     else rest))"

subsection \<open>OrderBook\<close>

record OrderBookLevel =
  lvl_price :: real
  lvl_size :: real

record OrderBook =
  ob_token_id :: string
  bids :: "OrderBookLevel list"
  asks :: "OrderBookLevel list"
  ob_timestamp_ms :: int

definition best_bid :: "OrderBook \<Rightarrow> real option" where
  "best_bid self = (case bids self of [] \<Rightarrow> None | l # _ \<Rightarrow> Some (lvl_price l))"

definition best_ask :: "OrderBook \<Rightarrow> real option" where
  "best_ask self = (case asks self of [] \<Rightarrow> None | l # _ \<Rightarrow> Some (lvl_price l))"

text \<open>
  The \<open>for level in levels\<close> loop of \<open>effective_price_for_size\<close>, with its three
  running variables \<open>remaining\<close>, \<open>total_cost\<close> (here \<open>cost\<close>) and \<open>total_qty\<close> (here
  \<open>qty\<close>); the result is their value when the loop is left, by \<open>break\<close> or at the end
  of the levels. Dividing by a level price of zero raises \<open>ZeroDivisionError\<close>.
\<close>

fun walk_levels ::
  "OrderBookLevel list \<Rightarrow> real \<Rightarrow> real \<Rightarrow> real \<Rightarrow> py_error + (real \<times> real \<times> real)" where
  "walk_levels [] remaining cost qty = Inr (remaining, cost, qty)"
| "walk_levels (level # levels) remaining cost qty =
     (let max_usdc_at_level = lvl_size level * lvl_price level;
          usdc_at_level = min remaining max_usdc_at_level
      in if lvl_price level = 0 then Inl ZeroDivisionError
         else
           let qty_at_level = usdc_at_level / lvl_price level;
               cost' = cost + usdc_at_level;
               qty' = qty + qty_at_level;
               remaining' = remaining - usdc_at_level
           in if remaining' \<le> 0 then Inr (remaining', cost', qty')
              else walk_levels levels remaining' cost' qty')"

definition effective_price_for_size :: "OrderBook \<Rightarrow> Side \<Rightarrow> real \<Rightarrow> py_error + efloat" where
  "effective_price_for_size self side size_usdc =
     (let levels = (if side = YES then asks self else bids self)
      in case walk_levels levels size_usdc 0 0 of
           Inl e \<Rightarrow> Inl e
         | Inr (remaining, cost, qty) \<Rightarrow>
             if qty = 0 then Inr PosInf else Inr (Finite (cost / qty)))"

section \<open>Truth engine (src/domain/engines/truth_engine.py)\<close>

text \<open>
  A payload is a dictionary from strings to values. The values are restricted to
  \<open>None\<close>, integers and strings, on which Python's \<open>==\<close> is structural equality.
  State fields that the engine fills from a payload (\<open>score_a\<close>, \<open>score_b\<close>,
  \<open>map_index\<close>, \<open>round_index\<close>, \<open>winner_team_id\<close>) hold such a value.
\<close>

datatype pyval = PNone | PInt int | PStr string

type_synonym payload = "string \<Rightarrow> pyval option"

definition dict_get :: "payload \<Rightarrow> string \<Rightarrow> pyval \<Rightarrow> pyval" where
  "dict_get d k dflt = (case d k of None \<Rightarrow> dflt | Some v \<Rightarrow> v)"

record MatchEvent =
  me_event_id :: string
  me_timestamp_ms :: int
  me_market_id :: "string option"
  me_match_id :: string
  me_event_type :: MatchEventType
  me_source :: string
  me_source_tier :: DataSourceTier
  me_payload :: payload
  me_source_event_id :: "string option"
  me_seq :: "int option"

text \<open>
  The signals the engine returns. The fields inherited from \<open>Event\<close> (a fresh uuid, the
  creation time, \<open>market_id = None\<close>) are not part of the model; the engine reads none
  of them. \<open>old_value\<close> and \<open>new_value\<close> are typed \<open>Any\<close>: a status name, a payload
  value, a pair of scores, or the dictionary of \<open>map_index\<close> and \<open>winner\<close>.
  \<open>confirmed_by\<close> is \<open>list(sources_confirming)\<close>, a list in the set's iteration order,
  kept as the set.
\<close>

datatype delta_value =
  VNone | VStr string | VVal pyval | VScore pyval pyval | VMap pyval pyval

record TruthDelta =
  td_match_id :: string
  td_delta_type :: string
  td_old_value :: delta_value
  td_new_value :: delta_value
  td_confidence :: real
  td_sources :: "string list"
  td_reason :: "string option"

record TruthFinal =
  tf_match_id :: string
  tf_winner_team_id :: pyval
  tf_confidence :: real
  tf_confirmed_by :: "string set"
  tf_finalized_at_ms :: int

datatype signal = Delta TruthDelta | Final TruthFinal

record TruthEngineConfig =
  confirm_threshold :: real
  max_wait_ms :: int
  required_sources_for_final :: int
  allowed_skew_ms :: int
  tier_a_sources :: "string list"
  tier_b_sources :: "string list"
  tier_c_sources :: "string list"

record TruthState =
  ts_match_id :: string
  ts_status :: TruthStatus
  team_a_id :: string
  team_b_id :: string
  score_a :: pyval
  score_b :: pyval
  map_index :: pyval
  round_index :: pyval
  confidence :: real
  winner_team_id :: pyval
  last_event_ms :: int
  ended_at_ms :: "int option"
  finalized_at_ms :: "int option"
  seen_event_ids :: "string set"
  last_seq :: "int option"
  sources_confirming :: "string set"

text \<open>The state a new \<open>TruthEngine(match_id, team_a_id, team_b_id, config)\<close> starts in.\<close>

definition init_truth_state :: "string \<Rightarrow> string \<Rightarrow> string \<Rightarrow> TruthState" where
  "init_truth_state mid ta tb =
     \<lparr>ts_match_id = mid, ts_status = PRE_MATCH, team_a_id = ta, team_b_id = tb,
      score_a = PInt 0, score_b = PInt 0, map_index = PInt 0, round_index = PInt 0,
      confidence = 0, winner_team_id = PNone, last_event_ms = 0, ended_at_ms = None,
      finalized_at_ms = None, seen_event_ids = {}, last_seq = None,
      sources_confirming = {}\<rparr>"

definition is_effectively_final :: "TruthState \<Rightarrow> bool" where
  "is_effectively_final st =
     ((ts_status st = PENDING_CONFIRM \<or> ts_status st = FINAL) \<and> confidence st \<ge> 0.85)"

definition winner_if_final :: "TruthState \<Rightarrow> pyval" where
  "winner_if_final st = (if is_effectively_final st then winner_team_id st else PNone)"

text \<open>
  \<open>_hash_event\<close> is the first 16 hex digits of the SHA-256 of a string built from the
  event type, the timestamp and the payload rendered with sorted keys. SHA-256 is not
  code of this repository: the hash enters as a parameter \<open>H\<close> of those three
  components, and every result below holds for every \<open>H\<close>.
\<close>

definition hash_event ::
  "(MatchEventType \<Rightarrow> int \<Rightarrow> payload \<Rightarrow> string) \<Rightarrow> MatchEvent \<Rightarrow> string" where
  "hash_event H event = H (me_event_type event) (me_timestamp_ms event) (me_payload event)"

text \<open>\<open>if event.source_event_id:\<close> is false for \<open>None\<close> and for the empty string.\<close>

definition is_duplicate ::
  "(MatchEventType \<Rightarrow> int \<Rightarrow> payload \<Rightarrow> string) \<Rightarrow> MatchEvent \<Rightarrow> TruthState
     \<Rightarrow> bool \<times> TruthState" where
  "is_duplicate H event st =
     (if me_source_event_id event \<noteq> None \<and> me_source_event_id event \<noteq> Some []
      then
        (if the (me_source_event_id event) \<in> seen_event_ids st then (True, st)
         else (False, st\<lparr>seen_event_ids :=
                 insert (the (me_source_event_id event)) (seen_event_ids st)\<rparr>))
      else
        (let event_hash = hash_event H event
         in if event_hash \<in> seen_event_ids st then (True, st)
            else (False, st\<lparr>seen_event_ids := insert event_hash (seen_event_ids st)\<rparr>)))"

definition is_out_of_order :: "TruthEngineConfig \<Rightarrow> MatchEvent \<Rightarrow> TruthState \<Rightarrow> bool \<times> TruthState" where
  "is_out_of_order cfg event st =
     (if me_seq event \<noteq> None \<and> last_seq st \<noteq> None
      then
        (if the (me_seq event) \<le> the (last_seq st) then (True, st)
         else (False, st\<lparr>last_seq := me_seq event\<rparr>))
      else if me_timestamp_ms event < last_event_ms st - allowed_skew_ms cfg then (True, st)
      else (False, st))"

definition status_delta :: "TruthState \<Rightarrow> string \<Rightarrow> string \<Rightarrow> MatchEvent \<Rightarrow> TruthDelta" where
  "status_delta st old new event =
     \<lparr>td_match_id = ts_match_id st, td_delta_type = ''status'', td_old_value = VStr old,
      td_new_value = VStr new, td_confidence = 0, td_sources = [me_source event],
      td_reason = None\<rparr>"

definition enter_pending_confirm :: "MatchEvent \<Rightarrow> TruthState \<Rightarrow> TruthDelta \<times> TruthState" where
  "enter_pending_confirm event st =
     (let st1 = st\<lparr>ts_status := PENDING_CONFIRM,
                   winner_team_id := dict_get (me_payload event) ''winner_team_id'' PNone,
                   ended_at_ms := Some (me_timestamp_ms event),
                   sources_confirming := {me_source event}\<rparr>;
          st2 = (if me_source_tier event = TIER_A then st1\<lparr>confidence := 0.90\<rparr>
                 else if me_source_tier event = TIER_B then st1\<lparr>confidence := 0.80\<rparr>
                 else st1\<lparr>confidence := 0.70\<rparr>)
      in ((status_delta st2 ''LIVE'' ''PENDING_CONFIRM'' event)\<lparr>td_confidence := confidence st2\<rparr>,
          st2))"

definition add_confirmation :: "string \<Rightarrow> DataSourceTier \<Rightarrow> TruthState \<Rightarrow> TruthState" where
  "add_confirmation src tier st =
     (if src \<in> sources_confirming st then st
      else
        let st1 = st\<lparr>sources_confirming := insert src (sources_confirming st)\<rparr>
        in if tier = TIER_A then st1\<lparr>confidence := min 1.0 (confidence st1 + 0.10)\<rparr>
           else if tier = TIER_B then st1\<lparr>confidence := min 0.95 (confidence st1 + 0.08)\<rparr>
           else st1\<lparr>confidence := min 0.90 (confidence st1 + 0.03)\<rparr>)"

definition should_finalize :: "TruthEngineConfig \<Rightarrow> TruthState \<Rightarrow> bool" where
  "should_finalize cfg st =
     (if confidence st \<ge> confirm_threshold cfg then True
      else if (\<exists>src \<in> sources_confirming st. src \<in> set (tier_a_sources cfg)) then True
      else if int (card (sources_confirming st)) \<ge> required_sources_for_final cfg then True
      else False)"

text \<open>
  \<open>_finalize\<close>; \<open>now\<close> is the wall clock in milliseconds. \<open>winner_team_id or ""\<close> is
  the empty string when the winner is \<open>None\<close>, \<open>""\<close> or \<open>0\<close>.
\<close>

definition truth_finalize :: "int \<Rightarrow> TruthState \<Rightarrow> TruthFinal \<times> TruthState" where
  "truth_finalize now st =
     (let st1 = st\<lparr>ts_status := FINAL, finalized_at_ms := Some now\<rparr>
      in (\<lparr>tf_match_id = ts_match_id st1,
           tf_winner_team_id =
             (if winner_team_id st1 = PNone \<or> winner_team_id st1 = PStr []
                 \<or> winner_team_id st1 = PInt 0
              then PStr [] else winner_team_id st1),
           tf_confidence = confidence st1,
           tf_confirmed_by = sources_confirming st1,
           tf_finalized_at_ms = now\<rparr>, st1))"

definition on_event_pre_match :: "MatchEvent \<Rightarrow> TruthState \<Rightarrow> signal option \<times> TruthState" where
  "on_event_pre_match event st =
     (case me_event_type event of
        MATCH_STARTED \<Rightarrow>
          (let st1 = st\<lparr>ts_status := LIVE\<rparr>
           in (Some (Delta (status_delta st1 ''PRE_MATCH'' ''LIVE'' event)), st1))
      | EV_PAUSED \<Rightarrow>
          (let st1 = st\<lparr>ts_status := PAUSED\<rparr>
           in (Some (Delta (status_delta st1 ''PRE_MATCH'' ''PAUSED'' event)), st1))
      | _ \<Rightarrow> (None, st))"

definition on_event_live :: "MatchEvent \<Rightarrow> TruthState \<Rightarrow> signal option \<times> TruthState" where
  "on_event_live event st =
     (case me_event_type event of
        EV_PAUSED \<Rightarrow>
          (let st1 = st\<lparr>ts_status := PAUSED\<rparr>
           in (Some (Delta (status_delta st1 ''LIVE'' ''PAUSED'' event)), st1))
      | SCORE_UPDATE \<Rightarrow>
          (let st1 = st\<lparr>score_a := dict_get (me_payload event) ''team_a_score'' (score_a st)\<rparr>;
               st2 = st1\<lparr>score_b := dict_get (me_payload event) ''team_b_score'' (score_b st1)\<rparr>
           in if (score_a st, score_b st) \<noteq> (score_a st2, score_b st2)
              then (Some (Delta
                      \<lparr>td_match_id = ts_match_id st2, td_delta_type = ''score'',
                       td_old_value = VScore (score_a st) (score_b st),
                       td_new_value = VScore (score_a st2) (score_b st2),
                       td_confidence = 0, td_sources = [me_source event],
                       td_reason = None\<rparr>), st2)
              else (None, st2))
      | ROUND_ENDED \<Rightarrow>
          (let st1 = st\<lparr>round_index :=
                       dict_get (me_payload event) ''round_index'' (round_index st)\<rparr>;
               winner = dict_get (me_payload event) ''winner_team_id'' PNone
           in (Some (Delta
                 \<lparr>td_match_id = ts_match_id st1, td_delta_type = ''round'',
                  td_old_value = VNone, td_new_value = VVal winner,
                  td_confidence = 0.6, td_sources = [me_source event],
                  td_reason = None\<rparr>), st1))
      | MAP_ENDED \<Rightarrow>
          (let old_map = map_index st;
               st1 = st\<lparr>map_index := dict_get (me_payload event) ''map_index'' (map_index st)\<rparr>;
               winner = dict_get (me_payload event) ''winner_team_id'' PNone
           in (Some (Delta
                 \<lparr>td_match_id = ts_match_id st1, td_delta_type = ''map'',
                  td_old_value = VVal old_map, td_new_value = VMap (map_index st1) winner,
                  td_confidence = 0.75, td_sources = [me_source event],
                  td_reason = None\<rparr>), st1))
      | MATCH_ENDED \<Rightarrow>
          (let (d, st1) = enter_pending_confirm event st in (Some (Delta d), st1))
      | _ \<Rightarrow> (None, st))"

definition on_event_paused :: "MatchEvent \<Rightarrow> TruthState \<Rightarrow> signal option \<times> TruthState" where
  "on_event_paused event st =
     (case me_event_type event of
        RESUMED \<Rightarrow>
          (let st1 = st\<lparr>ts_status := LIVE\<rparr>
           in (Some (Delta (status_delta st1 ''PAUSED'' ''LIVE'' event)), st1))
      | MATCH_ENDED \<Rightarrow>
          (let (d, st1) = enter_pending_confirm event st in (Some (Delta d), st1))
      | _ \<Rightarrow> (None, st))"

definition on_event_pending ::
  "TruthEngineConfig \<Rightarrow> int \<Rightarrow> MatchEvent \<Rightarrow> TruthState \<Rightarrow> signal option \<times> TruthState" where
  "on_event_pending cfg now event st =
     (if me_event_type event \<noteq> MATCH_ENDED then (None, st)
      else
        let winner = dict_get (me_payload event) ''winner_team_id'' PNone
        in if winner = winner_team_id st
           then
             (let st1 = add_confirmation (me_source event) (me_source_tier event) st
              in if should_finalize cfg st1
                 then (let (f, st2) = truth_finalize now st1 in (Some (Final f), st2))
                 else (None, st1))
           else
             (let st1 = st\<lparr>ts_status := LIVE, winner_team_id := PNone, confidence := 0,
                           sources_confirming := {}, ended_at_ms := None\<rparr>
              in (Some (Delta
                    ((status_delta st1 ''PENDING_CONFIRM'' ''LIVE'' event)
                       \<lparr>td_reason := Some ''contradiction''\<rparr>)), st1)))"

text \<open>\<open>_on_event_final\<close> only logs.\<close>

definition on_event_final :: "MatchEvent \<Rightarrow> TruthState \<Rightarrow> TruthState" where
  "on_event_final event st = st"

definition on_event ::
  "(MatchEventType \<Rightarrow> int \<Rightarrow> payload \<Rightarrow> string) \<Rightarrow> TruthEngineConfig \<Rightarrow> int \<Rightarrow> MatchEvent
     \<Rightarrow> TruthState \<Rightarrow> signal option \<times> TruthState" where
  "on_event H cfg now event st =
     (let (dup, st1) = is_duplicate H event st
      in if dup then (None, st1)
         else
           let (ooo, st2) = is_out_of_order cfg event st1
           in if ooo then (None, st2)
              else
                let st3 = st2\<lparr>last_event_ms := max (last_event_ms st2) (me_timestamp_ms event)\<rparr>
                in case ts_status st3 of
                     PRE_MATCH \<Rightarrow> on_event_pre_match event st3
                   | LIVE \<Rightarrow> on_event_live event st3
                   | PAUSED \<Rightarrow> on_event_paused event st3
                   | PENDING_CONFIRM \<Rightarrow> on_event_pending cfg now event st3
                   | FINAL \<Rightarrow> (None, on_event_final event st3))"

text \<open>\<open>tick\<close>: \<open>now_ms\<close> is the argument, \<open>now\<close> the wall clock \<open>_finalize\<close> reads.\<close>

definition tick :: "TruthEngineConfig \<Rightarrow> int \<Rightarrow> int \<Rightarrow> TruthState \<Rightarrow> TruthFinal option \<times> TruthState" where
  "tick cfg now now_ms st =
     (if ts_status st \<noteq> PENDING_CONFIRM then (None, st)
      else case ended_at_ms st of
        None \<Rightarrow> (None, st)
      | Some ended \<Rightarrow>
          let elapsed = now_ms - ended
          in if elapsed \<ge> max_wait_ms cfg
             then (let (f, st1) = truth_finalize now st in (Some f, st1))
             else (None, st))"

text \<open>
  A stream of events fed to one engine, call after call. The \<open>k\<close>-th call of
  \<open>on_event\<close> reads the wall clock as \<open>clock k\<close>. The result is the state after the last
  call.
\<close>

fun run_events ::
  "(MatchEventType \<Rightarrow> int \<Rightarrow> payload \<Rightarrow> string) \<Rightarrow> TruthEngineConfig \<Rightarrow> (nat \<Rightarrow> int) \<Rightarrow> nat
     \<Rightarrow> MatchEvent list \<Rightarrow> TruthState \<Rightarrow> TruthState" where
  "run_events H cfg clock k [] st = st"
| "run_events H cfg clock k (e # es) st =
     run_events H cfg clock (Suc k) es (snd (on_event H cfg (clock k) e st))"

section \<open>Trading engine (src/domain/engines/trading_engine.py)\<close>

record Order =
  ord_id :: string
  ord_market_id :: string
  ord_token_id :: string
  ord_side :: Side
  ord_price :: real
  ord_size :: real
  ord_status :: OrderStatus
  ord_idempotency_key :: string
  created_at :: int
  placed_at :: "int option"
  matched_at :: "int option"
  mined_at :: "int option"
  confirmed_at :: "int option"
  filled_size :: real
  avg_fill_price :: "real option"
  error_message :: "string option"
  reject_reason :: "string option"

text \<open>
  \<open>OrderIntent\<close>: the reason string is \<open>pair_cost_avg=\<close> followed by Python's rendering of
  the position's \<open>pair_cost_avg()\<close>; the model keeps that value. The fresh uuid of
  \<open>idempotency_key\<close> is not modelled; \<open>truth_confidence\<close> and \<open>expected_edge\<close> stay \<open>None\<close>.
\<close>

record OrderIntent =
  oi_market_id :: string
  oi_side :: Side
  oi_price :: real
  oi_size :: real
  oi_strategy :: string
  oi_reason_pair_cost_avg :: "real option"

record CancelIntent =
  ci_order_id :: string
  ci_market_id :: string
  ci_reason :: string

record TradingEngineConfig =
  idle_after_no_opportunity_ticks :: int
  temporal_signal_ttl_ms :: int
  settlement_timeout_ms :: int
  auto_recover_from_halt :: bool
  halt_recovery_delay_ms :: int
  pair_cost_cap :: real
  cfg_fee_rate :: real
  step_usdc :: real
  max_total_cost :: real
  max_leg_imbalance_usdc :: real
  max_consecutive_rejects :: int
  max_cancel_failures :: int

text \<open>
  \<open>open_orders\<close> is a dictionary; Python iterates it in insertion order, which fixes the
  order of the cancel intents, so it is an association list with distinct keys:
  \<open>d[k] = v\<close> is \<open>AList.update k v\<close> (in place for a key present, at the end
  otherwise), \<open>del d[k]\<close> is \<open>AList.delete k\<close>, \<open>k in d\<close> is \<open>map_of d k \<noteq> None\<close>.
\<close>

record TradingState =
  tr_market_id :: string
  tr_status :: TradingStatus
  tr_position :: PairPosition
  open_orders :: "(string \<times> Order) list"
  consecutive_rejects :: int
  consecutive_cancel_failures :: int
  last_order_latency_ms :: "real option"
  entered_state_at :: int
  last_activity_at :: int

record TradingEngine =
  eng_config :: TradingEngineConfig
  eng_state :: TradingState
  no_opportunity_ticks :: int
  temporal_signal_at_ms :: "int option"

text \<open>
  The \<open>reason\<close> strings of the engine are only logged. A reason built by an f-string from
  a label and a counter is \<open>Count label n\<close>.
\<close>

datatype reason_text = Text string | Count string int

text \<open>
  Every method takes the wall clock as \<open>now\<close>; all the readings of \<open>datetime.now\<close>
  within one call are taken to be equal.
\<close>

definition status :: "TradingEngine \<Rightarrow> TradingStatus" where
  "status self = tr_status (eng_state self)"

definition transition_to :: "int \<Rightarrow> TradingStatus \<Rightarrow> reason_text \<Rightarrow> TradingEngine \<Rightarrow> TradingEngine" where
  "transition_to now new_status reason self =
     self\<lparr>eng_state := (eng_state self)\<lparr>tr_status := new_status, entered_state_at := now,
                                         last_activity_at := now\<rparr>\<rparr>"

definition cancel_all_orders :: "TradingEngine \<Rightarrow> CancelIntent list" where
  "cancel_all_orders self =
     map (\<lambda>(order_id, order).
            \<lparr>ci_order_id = order_id, ci_market_id = tr_market_id (eng_state self),
             ci_reason = ''cancel_all''\<rparr>)
         (filter (\<lambda>(order_id, order). ord_status order = PLACED \<or> ord_status order = PENDING)
                 (open_orders (eng_state self)))"

definition halt :: "int \<Rightarrow> reason_text \<Rightarrow> TradingEngine \<Rightarrow> CancelIntent list \<times> TradingEngine" where
  "halt now reason self =
     (if status self = HALT then ([], self)
      else let self1 = transition_to now HALT reason self
           in (cancel_all_orders self1, self1))"

definition resume_from_halt :: "int \<Rightarrow> TradingEngine \<Rightarrow> bool \<times> TradingEngine" where
  "resume_from_halt now self =
     (if status self \<noteq> HALT then (False, self)
      else
        let self1 = self\<lparr>eng_state := (eng_state self)\<lparr>consecutive_rejects := 0,
                                           consecutive_cancel_failures := 0\<rparr>\<rparr>
        in (True, transition_to now IDLE (Text ''manual_resume'') self1))"

definition finalize :: "int \<Rightarrow> TradingEngine \<Rightarrow> CancelIntent list \<times> TradingEngine" where
  "finalize now self =
     (if status self = RESOLVED \<or> status self = HALT then ([], self)
      else let self1 = transition_to now FINALIZING (Text ''match_ending'') self
           in (cancel_all_orders self1, self1))"

definition resolve :: "int \<Rightarrow> TradingEngine \<Rightarrow> TradingEngine" where
  "resolve now self = transition_to now RESOLVED (Text ''market_settled'') self"

text \<open>
  \<open>_check_circuit_breaker\<close> calls \<open>self.halt(reason)\<close> as a statement: the list of cancel
  intents that \<open>halt\<close> returns is dropped there.
\<close>

definition check_circuit_breaker :: "int \<Rightarrow> TradingEngine \<Rightarrow> bool \<times> TradingEngine" where
  "check_circuit_breaker now self =
     (if status self = HALT then (True, self)
      else
        let st = eng_state self;
            reason0 = None;
            reason1 = (if consecutive_rejects st \<ge> max_consecutive_rejects (eng_config self)
                       then Some (Count ''consecutive_rejects:'' (consecutive_rejects st))
                       else reason0);
            reason2 = (if consecutive_cancel_failures st \<ge> max_cancel_failures (eng_config self)
                       then Some (Count ''cancel_failures:'' (consecutive_cancel_failures st))
                       else reason1)
        in case reason2 of
             Some reason \<Rightarrow> (True, snd (halt now reason self))
           | None \<Rightarrow> (False, self))"

definition select_leg_to_buy :: "OrderBook \<Rightarrow> OrderBook \<Rightarrow> TradingEngine \<Rightarrow> Side option" where
  "select_leg_to_buy orderbook_yes orderbook_no self =
     (let pos = tr_position (eng_state self);
          imbalance_shares = q_yes pos - q_no pos;
          threshold = 20
      in if imbalance_shares > threshold then Some NO
         else if imbalance_shares < - threshold then Some YES
         else
           let yes_ask = best_ask orderbook_yes;
               no_ask = best_ask orderbook_no
           in if yes_ask = None \<and> no_ask = None then None
              else if yes_ask = None then Some NO
              else if no_ask = None then Some YES
              else if the yes_ask < the no_ask then Some YES else Some NO)"

definition evaluate_pair_arb_opportunity ::
  "int \<Rightarrow> OrderBook \<Rightarrow> OrderBook \<Rightarrow> TradingEngine \<Rightarrow> py_error + OrderIntent option" where
  "evaluate_pair_arb_opportunity now orderbook_yes orderbook_no self =
     (case select_leg_to_buy orderbook_yes orderbook_no self of
        None \<Rightarrow> Inr None
      | Some side \<Rightarrow>
          let orderbook = (if side = YES then orderbook_yes else orderbook_no)
          in (case best_ask orderbook of
                None \<Rightarrow> Inr None
              | Some price \<Rightarrow>
                  (case should_buy_more now (tr_position (eng_state self)) side
                          (step_usdc (eng_config self)) price
                          (pair_cost_cap (eng_config self))
                          (max_total_cost (eng_config self))
                          (Finite (max_leg_imbalance_usdc (eng_config self))) True of
                     Inl e \<Rightarrow> Inl e
                   | Inr (allowed, reason) \<Rightarrow>
                       if \<not> allowed then Inr None
                       else Inr (Some
                              \<lparr>oi_market_id = tr_market_id (eng_state self), oi_side = side,
                               oi_price = price, oi_size = step_usdc (eng_config self),
                               oi_strategy = ''pair_arb'',
                               oi_reason_pair_cost_avg =
                                 pair_cost_avg (tr_position (eng_state self))\<rparr>))))"

text \<open>
  The event handlers return the outcome of the call (\<open>Inl e\<close>: raised \<open>e\<close>) and the engine
  as the call leaves it, also when it raises.
\<close>

definition handle_idle_orderbook ::
  "int \<Rightarrow> OrderBook \<Rightarrow> OrderBook \<Rightarrow> TradingEngine
     \<Rightarrow> (py_error + OrderIntent option) \<times> TradingEngine" where
  "handle_idle_orderbook now orderbook_yes orderbook_no self =
     (case evaluate_pair_arb_opportunity now orderbook_yes orderbook_no self of
        Inl e \<Rightarrow> (Inl e, self)
      | Inr (Some intent) \<Rightarrow>
          (Inr (Some intent),
           (transition_to now BUILDING_PAIR (Text ''pair_arb_opportunity'') self)
             \<lparr>no_opportunity_ticks := 0\<rparr>)
      | Inr None \<Rightarrow> (Inr None, self))"

definition handle_building_orderbook ::
  "int \<Rightarrow> OrderBook \<Rightarrow> OrderBook \<Rightarrow> TradingEngine
     \<Rightarrow> (py_error + OrderIntent option) \<times> TradingEngine" where
  "handle_building_orderbook now orderbook_yes orderbook_no self =
     (case evaluate_pair_arb_opportunity now orderbook_yes orderbook_no self of
        Inl e \<Rightarrow> (Inl e, self)
      | Inr (Some intent) \<Rightarrow> (Inr (Some intent), self\<lparr>no_opportunity_ticks := 0\<rparr>)
      | Inr None \<Rightarrow>
          (Inr None, self\<lparr>no_opportunity_ticks := no_opportunity_ticks self + 1\<rparr>))"

definition handle_temporal_orderbook ::
  "OrderBook \<Rightarrow> OrderBook \<Rightarrow> TradingEngine \<Rightarrow> (py_error + OrderIntent option) \<times> TradingEngine" where
  "handle_temporal_orderbook orderbook_yes orderbook_no self = (Inr None, self)"

text \<open>The rebalancing branch of \<open>_handle_building_fill\<close> only logs.\<close>

definition handle_building_fill :: "int \<Rightarrow> TradingEngine \<Rightarrow> OrderIntent option \<times> TradingEngine" where
  "handle_building_fill now self =
     (if guaranteed_pnl (tr_position (eng_state self)) > 0
      then (None, transition_to now LOCKED_PAIR (Text ''profit_locked'') self)
      else (None, self))"

definition handle_temporal_fill :: "int \<Rightarrow> TradingEngine \<Rightarrow> OrderIntent option \<times> TradingEngine" where
  "handle_temporal_fill now self =
     (let self1 = (if guaranteed_pnl (tr_position (eng_state self)) > 0
                   then transition_to now LOCKED_PAIR (Text ''temporal_to_locked'') self
                   else transition_to now IDLE (Text ''temporal_filled'') self)
      in (None, self1\<lparr>temporal_signal_at_ms := None\<rparr>))"

definition on_orderbook_update ::
  "int \<Rightarrow> OrderBook \<Rightarrow> OrderBook \<Rightarrow> TradingEngine
     \<Rightarrow> (py_error + OrderIntent option) \<times> TradingEngine" where
  "on_orderbook_update now orderbook_yes orderbook_no self =
     (let self1 = self\<lparr>eng_state := (eng_state self)\<lparr>last_activity_at := now\<rparr>\<rparr>;
          (tripped, self2) = check_circuit_breaker now self1
      in if tripped then (Inr None, self2)
         else case status self2 of
           IDLE \<Rightarrow> handle_idle_orderbook now orderbook_yes orderbook_no self2
         | BUILDING_PAIR \<Rightarrow> handle_building_orderbook now orderbook_yes orderbook_no self2
         | TEMPORAL_ACTIVE \<Rightarrow> handle_temporal_orderbook orderbook_yes orderbook_no self2
         | _ \<Rightarrow> (Inr None, self2))"

definition on_fill ::
  "int \<Rightarrow> Side \<Rightarrow> real \<Rightarrow> real \<Rightarrow> string \<Rightarrow> TradingEngine
     \<Rightarrow> (py_error + OrderIntent option) \<times> TradingEngine" where
  "on_fill now side qty price order_id self =
     (case apply_fill now
             \<lparr>fill_side = side, fill_qty = qty, fill_price = price, fill_ts_ms = 0,
              fill_type = FULL, fill_order_id = None\<rparr>
             (tr_position (eng_state self)) of
        (Some e, pos') \<Rightarrow> (Inl e, self\<lparr>eng_state := (eng_state self)\<lparr>tr_position := pos'\<rparr>\<rparr>)
      | (None, pos') \<Rightarrow>
          let self1 = self\<lparr>eng_state := (eng_state self)\<lparr>tr_position := pos',
                                             last_activity_at := now\<rparr>\<rparr>;
              self2 = self1\<lparr>eng_state := (eng_state self1)
                        \<lparr>open_orders := AList.delete order_id (open_orders (eng_state self1))\<rparr>\<rparr>
          in (case status self2 of
                BUILDING_PAIR \<Rightarrow>
                  (let (r, self3) = handle_building_fill now self2 in (Inr r, self3))
              | TEMPORAL_ACTIVE \<Rightarrow>
                  (let (r, self3) = handle_temporal_fill now self2 in (Inr r, self3))
              | _ \<Rightarrow> (Inr None, self2)))"

definition on_order_rejected :: "int \<Rightarrow> string \<Rightarrow> string \<Rightarrow> TradingEngine \<Rightarrow> TradingEngine" where
  "on_order_rejected now order_id reason self =
     (let st = eng_state self;
          st1 = st\<lparr>consecutive_rejects := consecutive_rejects st + 1, last_activity_at := now\<rparr>;
          st2 = (case map_of (open_orders st1) order_id of
                   None \<Rightarrow> st1
                 | Some order \<Rightarrow>
                     st1\<lparr>open_orders :=
                           AList.update order_id
                             (order\<lparr>ord_status := REJECTED, reject_reason := Some reason\<rparr>)
                             (open_orders st1)\<rparr>)
      in snd (check_circuit_breaker now (self\<lparr>eng_state := st2\<rparr>)))"

definition on_order_success :: "int \<Rightarrow> string \<Rightarrow> TradingEngine \<Rightarrow> TradingEngine" where
  "on_order_success now order_id self =
     (let st = eng_state self;
          st1 = st\<lparr>consecutive_rejects := 0, last_activity_at := now\<rparr>;
          st2 = (case map_of (open_orders st1) order_id of
                   None \<Rightarrow> st1
                 | Some order \<Rightarrow>
                     st1\<lparr>open_orders :=
                           AList.update order_id (order\<lparr>ord_status := PLACED\<rparr>)
                             (open_orders st1)\<rparr>)
      in self\<lparr>eng_state := st2\<rparr>)"

definition on_cancel_failure :: "int \<Rightarrow> string \<Rightarrow> TradingEngine \<Rightarrow> TradingEngine" where
  "on_cancel_failure now order_id self =
     (let st = eng_state self;
          st1 = st\<lparr>consecutive_cancel_failures := consecutive_cancel_failures st + 1\<rparr>
      in snd (check_circuit_breaker now (self\<lparr>eng_state := st1\<rparr>)))"

text \<open>
  \<open>on_cancel_success\<close> marks the order \<open>CANCELLED\<close> and then deletes its key; the order
  object itself belongs to the caller and is no longer reachable from the engine.
\<close>

definition on_cancel_success :: "string \<Rightarrow> TradingEngine \<Rightarrow> TradingEngine" where
  "on_cancel_success order_id self =
     (let st = eng_state self;
          st1 = st\<lparr>consecutive_cancel_failures := 0\<rparr>;
          st2 = st1\<lparr>open_orders := AList.delete order_id (open_orders st1)\<rparr>
      in self\<lparr>eng_state := st2\<rparr>)"

text \<open>\<open>if self._temporal_signal_at_ms:\<close> is false for \<open>None\<close> and for \<open>0\<close>.\<close>

definition on_tick :: "int \<Rightarrow> int \<Rightarrow> TradingEngine \<Rightarrow> CancelIntent list \<times> TradingEngine" where
  "on_tick now now_ms self =
     (case status self of
        BUILDING_PAIR \<Rightarrow>
          (let self1 = self\<lparr>no_opportunity_ticks := no_opportunity_ticks self + 1\<rparr>
           in if no_opportunity_ticks self1 \<ge> idle_after_no_opportunity_ticks (eng_config self1)
              then ([], (transition_to now IDLE (Text ''no_opportunity_timeout'') self1)
                          \<lparr>no_opportunity_ticks := 0\<rparr>)
              else ([], self1))
      | TEMPORAL_ACTIVE \<Rightarrow>
          (if temporal_signal_at_ms self \<noteq> None \<and> temporal_signal_at_ms self \<noteq> Some 0
           then
             let elapsed = now_ms - the (temporal_signal_at_ms self)
             in if elapsed \<ge> temporal_signal_ttl_ms (eng_config self)
                then (cancel_all_orders self,
                      (transition_to now IDLE (Text ''signal_expired'') self)
                        \<lparr>temporal_signal_at_ms := None\<rparr>)
                else ([], self)
           else ([], self))
      | _ \<Rightarrow> ([], self))"

definition track_order :: "Order \<Rightarrow> TradingEngine \<Rightarrow> TradingEngine" where
  "track_order order self =
     self\<lparr>eng_state := (eng_state self)
            \<lparr>open_orders := AList.update (ord_id order) order (open_orders (eng_state self))\<rparr>\<rparr>"

text \<open>
  The public methods of the engine that can write to it, as one type of calls, and the
  engine after such a call (whether the call returns or raises).
\<close>

datatype trading_call =
  Halt reason_text
  | ResumeFromHalt
  | Finalize
  | Resolve
  | OnOrderbookUpdate OrderBook OrderBook
  | OnFill Side real real string
  | OnOrderRejected string string
  | OnOrderSuccess string
  | OnCancelFailure string
  | OnCancelSuccess string
  | OnTick int
  | TrackOrder Order

fun after_call :: "int \<Rightarrow> trading_call \<Rightarrow> TradingEngine \<Rightarrow> TradingEngine" where
  "after_call now (Halt reason) self = snd (halt now reason self)"
| "after_call now ResumeFromHalt self = snd (resume_from_halt now self)"
| "after_call now Finalize self = snd (finalize now self)"
| "after_call now Resolve self = resolve now self"
| "after_call now (OnOrderbookUpdate y n) self = snd (on_orderbook_update now y n self)"
| "after_call now (OnFill side qty price order_id) self =
     snd (on_fill now side qty price order_id self)"
| "after_call now (OnOrderRejected order_id reason) self =
     on_order_rejected now order_id reason self"
| "after_call now (OnOrderSuccess order_id) self = on_order_success now order_id self"
| "after_call now (OnCancelFailure order_id) self = on_cancel_failure now order_id self"
| "after_call now (OnCancelSuccess order_id) self = on_cancel_success order_id self"
| "after_call now (OnTick now_ms) self = snd (on_tick now now_ms self)"
| "after_call now (TrackOrder order) self = track_order order self"

text \<open>
  \<open>TradingEngine.__init__\<close>: without a position the engine starts from an empty one that
  carries the configured fee rate. \<open>TradingEngineConfig()\<close> with the dataclass defaults
  is \<open>default_trading_config\<close>.
\<close>

definition empty_position :: "string \<Rightarrow> real \<Rightarrow> PairPosition" where
  "empty_position mid fee =
     \<lparr>pos_market_id = mid, fee_rate = fee, q_yes = 0, q_no = 0, c_yes = 0, c_no = 0,
      first_fill_at = None, last_fill_at = None\<rparr>"

definition new_engine ::
  "int \<Rightarrow> string \<Rightarrow> TradingEngineConfig \<Rightarrow> PairPosition option \<Rightarrow> TradingEngine" where
  "new_engine now mid config position =
     \<lparr>eng_config = config,
      eng_state =
        \<lparr>tr_market_id = mid, tr_status = IDLE,
         tr_position = (case position of
                          Some p \<Rightarrow> p
                        | None \<Rightarrow> empty_position mid (cfg_fee_rate config)),
         open_orders = [], consecutive_rejects = 0, consecutive_cancel_failures = 0,
         last_order_latency_ms = None, entered_state_at = now, last_activity_at = now\<rparr>,
      no_opportunity_ticks = 0, temporal_signal_at_ms = None\<rparr>"

definition default_trading_config :: TradingEngineConfig where
  "default_trading_config =
     \<lparr>idle_after_no_opportunity_ticks = 100, temporal_signal_ttl_ms = 5000,
      settlement_timeout_ms = 60000, auto_recover_from_halt = False,
      halt_recovery_delay_ms = 300000, pair_cost_cap = 0.975, cfg_fee_rate = 0.02,
      step_usdc = 25, max_total_cost = 1500, max_leg_imbalance_usdc = 100,
      max_consecutive_rejects = 3, max_cancel_failures = 3\<rparr>"

section \<open>Fixtures of the test suite (src/tests)\<close>

text \<open>The \<open>config\<close> and \<open>engine\<close> fixtures of \<open>test_truth_engine.py\<close>.\<close>

definition test_config :: TruthEngineConfig where
  "test_config =
     \<lparr>confirm_threshold = 0.90, max_wait_ms = 10000, required_sources_for_final = 2,
      allowed_skew_ms = 2000, tier_a_sources = [''grid'', ''official''],
      tier_b_sources = [''opendota'', ''pandascore''], tier_c_sources = [''liquipedia'']\<rparr>"

definition test_engine_state :: TruthState where
  "test_engine_state = init_truth_state ''test_match_1'' ''team_a'' ''team_b''"

text \<open>
  A \<open>MatchEvent\<close> as the tests build it: match \<open>test_match_1\<close>, no \<open>seq\<close>, no
  \<open>market_id\<close>; the uuid \<open>event_id\<close> is left empty, the engine does not read it.
\<close>

definition test_event ::
  "MatchEventType \<Rightarrow> string \<Rightarrow> DataSourceTier \<Rightarrow> int \<Rightarrow> string option \<Rightarrow> payload \<Rightarrow> MatchEvent" where
  "test_event ty src tier ts sid pl =
     \<lparr>me_event_id = [], me_timestamp_ms = ts, me_market_id = None,
      me_match_id = ''test_match_1'', me_event_type = ty, me_source = src,
      me_source_tier = tier, me_payload = pl, me_source_event_id = sid, me_seq = None\<rparr>"

definition winner_payload :: "string \<Rightarrow> payload" where
  "winner_payload w = Map.empty(''winner_team_id'' \<mapsto> PStr w)"

text \<open>An \<open>Order\<close> with a given id and status for market \<open>m\<close>, its other fields at rest.\<close>

definition test_order :: "string \<Rightarrow> OrderStatus \<Rightarrow> Order" where
  "test_order oid st =
     \<lparr>ord_id = oid, ord_market_id = ''m'', ord_token_id = [], ord_side = YES, ord_price = 0,
      ord_size = 0, ord_status = st, ord_idempotency_key = [], created_at = 0,
      placed_at = None, matched_at = None, mined_at = None, confirmed_at = None,
      filled_size = 0, avg_fill_price = None, error_message = None, reject_reason = None\<rparr>"

section \<open>The statements of the specification\<close>

text \<open>
  The table of section 4.2, row by row: the reason code and whether its condition holds,
  for the position \<open>pos\<close> before the buy and the position \<open>post\<close> after it. An undefined
  \<open>pair_cost_avg\<close> satisfies neither pair-cost condition. The decision is the first row
  that fires, or approval.
\<close>

definition spec_checks ::
  "PairPosition \<Rightarrow> PairPosition \<Rightarrow> real \<Rightarrow> real \<Rightarrow> real \<Rightarrow> efloat \<Rightarrow> bool \<Rightarrow> (string \<times> bool) list" where
  "spec_checks pos post quote_amount cap max_total max_leg require_improve =
     [(''zero_amount'', quote_amount \<le> 0),
      (''exceeds_max_total'', total_cost pos + quote_amount > max_total),
      (''pair_cost_exceeds_net'',
         (case pair_cost_avg post of None \<Rightarrow> False | Some pc \<Rightarrow> pc \<ge> 1 - fee_rate pos)),
      (''pair_cost_exceeds_cap'',
         (case pair_cost_avg post of None \<Rightarrow> False | Some pc \<Rightarrow> pc \<ge> cap)),
      (''leg_imbalance'', efloat_gt (leg_imbalance_usdc post) max_leg),
      (''no_pnl_improvement'', require_improve \<and> guaranteed_pnl post \<le> guaranteed_pnl pos)]"

definition spec_decision :: "(string \<times> bool) list \<Rightarrow> bool \<times> string" where
  "spec_decision checks =
     (case find snd checks of
        None \<Rightarrow> (True, ''approved'')
      | Some (reason, fired) \<Rightarrow> (False, reason))"

text \<open>
  Leg selection as section 4.4 words it, on the two share counts and the two best asks,
  with the tie between equal asks and the case of a single ask as the code decides them.
\<close>

definition spec_select_leg :: "real \<Rightarrow> real \<Rightarrow> real option \<Rightarrow> real option \<Rightarrow> Side option" where
  "spec_select_leg qy qn yes_ask no_ask =
     (if qy - qn > 20 then Some NO
      else if qy - qn < - 20 then Some YES
      else case (yes_ask, no_ask) of
        (None, None) \<Rightarrow> None
      | (None, Some b) \<Rightarrow> Some NO
      | (Some a, None) \<Rightarrow> Some YES
      | (Some a, Some b) \<Rightarrow> if a < b then Some YES else Some NO)"

text \<open>
  The calls that do not reach \<open>halt\<close>: every call but \<open>halt\<close> itself, and the three
  that consult the circuit breaker only while it does not trip, that is while both
  failure counters, after the increment the call makes, are below their thresholds.
\<close>

fun avoids_halt :: "trading_call \<Rightarrow> TradingEngine \<Rightarrow> bool" where
  "avoids_halt (Halt reason) self = False"
| "avoids_halt (OnOrderRejected order_id reason) self =
     (consecutive_rejects (eng_state self) + 1 < max_consecutive_rejects (eng_config self)
      \<and> consecutive_cancel_failures (eng_state self) < max_cancel_failures (eng_config self))"
| "avoids_halt (OnCancelFailure order_id) self =
     (consecutive_rejects (eng_state self) < max_consecutive_rejects (eng_config self)
      \<and> consecutive_cancel_failures (eng_state self) + 1 < max_cancel_failures (eng_config self))"
| "avoids_halt (OnOrderbookUpdate y n) self =
     (consecutive_rejects (eng_state self) < max_consecutive_rejects (eng_config self)
      \<and> consecutive_cancel_failures (eng_state self) < max_cancel_failures (eng_config self))"
| "avoids_halt call self = True"

text \<open>
  One cancel intent for each order of a dictionary of orders whose status is \<open>PENDING\<close>
  or \<open>PLACED\<close>, in the order of the dictionary, for the market given.
\<close>

definition spec_cancel_intents :: "string \<Rightarrow> (string \<times> Order) list \<Rightarrow> CancelIntent list" where
  "spec_cancel_intents market orders =
     map (\<lambda>order_id. \<lparr>ci_order_id = order_id, ci_market_id = market,
                      ci_reason = ''cancel_all''\<rparr>)
       (map fst (filter (\<lambda>kv. ord_status (snd kv) \<in> {PENDING, PLACED}) orders))"



text \<open>The key under which admission remembers an event.\<close>

definition dedup_key ::
  "(MatchEventType \<Rightarrow> int \<Rightarrow> payload \<Rightarrow> string) \<Rightarrow> MatchEvent \<Rightarrow> string" where
  "dedup_key H event =
     (if me_source_event_id event \<noteq> None \<and> me_source_event_id event \<noteq> Some []
      then the (me_source_event_id event) else hash_event H event)"

text \<open>An event is admitted when it is neither a duplicate nor out of order.\<close>

definition admitted ::
  "(MatchEventType \<Rightarrow> int \<Rightarrow> payload \<Rightarrow> string) \<Rightarrow> TruthEngineConfig \<Rightarrow> MatchEvent
     \<Rightarrow> TruthState \<Rightarrow> bool" where
  "admitted H cfg event st =
     (\<not> fst (is_duplicate H event st)
      \<and> \<not> fst (is_out_of_order cfg event (snd (is_duplicate H event st))))"

section \<open>Properties of the pair-position arithmetic\<close>

lemma hypo_buy_returns:
  "price \<le> 1 \<Longrightarrow>
     \<exists>post. hypo_buy now pos side amt price = Inr post \<and> fee_rate post = fee_rate pos"
  by (auto simp add: hypo_buy_def apply_fill_def copy_def Let_def)

text \<open>
  C1 (as amended). For every position, side, amount and caps, and every price of at most
  1, \<open>hypo_buy\<close> returns a projection \<open>post\<close> and \<open>should_buy_more\<close> returns the decision
  of the table of section 4.2 read in its fixed order \<open>zero_amount\<close>,
  \<open>exceeds_max_total\<close>, \<open>pair_cost_exceeds_net\<close>, \<open>pair_cost_exceeds_cap\<close>,
  \<open>leg_imbalance\<close>, \<open>no_pnl_improvement\<close>: the reason of the first check that fires,
  with checks 3 to 6 computed on \<open>post\<close>, or approval when none fires.
\<close>

theorem should_buy_more_precedence:
  assumes "price \<le> 1"
  shows "\<exists>post. hypo_buy now pos side usdc_amount price = Inr post
           \<and> should_buy_more now pos side usdc_amount price cap max_total max_leg require_improve
               = Inr (spec_decision
                        (spec_checks pos post usdc_amount cap max_total max_leg require_improve))"
proof -
  from hypo_buy_returns [OF assms] obtain post where
    h: "hypo_buy now pos side usdc_amount price = Inr post" and f: "fee_rate post = fee_rate pos"
    by blast
  have "should_buy_more now pos side usdc_amount price cap max_total max_leg require_improve
          = Inr (spec_decision
                   (spec_checks pos post usdc_amount cap max_total max_leg require_improve))"
    by (simp add: should_buy_more_def h f spec_decision_def spec_checks_def Let_def
        split: option.splits)
  with h show ?thesis by blast
qed

text \<open>
  Scenario 3 of the specification: a position with 100 YES shares bought for 55, buying
  NO for 50 at 0.50 under a cap of 0.99 and a budget of 1000, is refused with
  \<open>pair_cost_exceeds_net\<close>.
\<close>

theorem should_buy_more_precedence_witness:
  "(0.5::real) \<le> 1 \<and>
   should_buy_more 0 ((empty_position ''m'' 0.02)\<lparr>q_yes := 100, c_yes := 55\<rparr>) NO 50 0.5
       0.99 1000 PosInf True
     = Inr (False, ''pair_cost_exceeds_net'')"
proof -
  have h: "(0.5::real) \<le> 1" by simp
  from should_buy_more_precedence [OF h, where now = 0
      and pos = "(empty_position ''m'' 0.02)\<lparr>q_yes := 100, c_yes := 55\<rparr>" and side = NO
      and usdc_amount = 50 and cap = "0.99" and max_total = 1000 and max_leg = PosInf
      and require_improve = True]
  obtain post where
    p: "hypo_buy 0 ((empty_position ''m'' 0.02)\<lparr>q_yes := 100, c_yes := 55\<rparr>) NO 50 0.5
          = Inr post"
    and s: "should_buy_more 0 ((empty_position ''m'' 0.02)\<lparr>q_yes := 100, c_yes := 55\<rparr>)
              NO 50 0.5 0.99 1000 PosInf True
          = Inr (spec_decision
                   (spec_checks ((empty_position ''m'' 0.02)\<lparr>q_yes := 100, c_yes := 55\<rparr>)
                      post 50 0.99 1000 PosInf True))"
    by blast
  from p have post:
    "post = \<lparr>pos_market_id = ''m'', fee_rate = 0.02, q_yes = 100, q_no = 100, c_yes = 55,
             c_no = 50, first_fill_at = Some 0, last_fill_at = Some 0\<rparr>"
    by (simp add: hypo_buy_def apply_fill_def copy_def empty_position_def Let_def)
  show ?thesis using h s
    by (simp add: post spec_decision_def spec_checks_def empty_position_def total_cost_def
        pair_cost_avg_def avg_yes_def avg_no_def)
qed

text \<open>
  C1 as stated fails for a price above 1: on an empty position with the default caps,
  buying YES for 10 at a price of 2 passes the first two checks and then raises the
  \<open>ValueError\<close> of \<open>apply_fill\<close>; no reason code is returned.
\<close>

theorem should_buy_more_raises_counterexample:
  "\<not> (\<exists>r. should_buy_more 0 (empty_position ''m'' 0.02) YES 10 2 0.975 1500 (Finite 100) True
            = Inr r)"
  by (simp add: should_buy_more_def hypo_buy_def apply_fill_def copy_def empty_position_def
      total_cost_def Let_def)

text \<open>
  C10 (as amended). For every position and every fill whose price lies outside [0, 1],
  \<open>apply_fill\<close> leaves the position as it was, all fields included; it raises
  \<open>ValueError\<close> when the quantity of the fill is positive, and returns without an error
  when the quantity is zero or negative.
\<close>

theorem apply_fill_rejects_bad_price:
  assumes "fill_price fill < 0 \<or> fill_price fill > 1"
  shows "apply_fill now fill pos
           = ((if fill_qty fill > 0 then Some ValueError else None), pos)"
  using assms by (auto simp add: apply_fill_def)

theorem apply_fill_rejects_bad_price_witness:
  "apply_fill 0 \<lparr>fill_side = YES, fill_qty = 10, fill_price = 2, fill_ts_ms = 0,
                 fill_type = FULL, fill_order_id = None\<rparr> (empty_position ''m'' 0.02)
     = (Some ValueError, empty_position ''m'' 0.02)"
  using apply_fill_rejects_bad_price
    [of "\<lparr>fill_side = YES, fill_qty = 10, fill_price = 2, fill_ts_ms = 0,
          fill_type = FULL, fill_order_id = None\<rparr>" 0 "empty_position ''m'' 0.02"]
  by simp

text \<open>
  C10 as stated fails for a fill of quantity zero: its price of 2 is outside [0, 1], yet
  \<open>apply_fill\<close> returns at its first test and raises nothing.
\<close>

theorem apply_fill_zero_qty_counterexample:
  "fill_price \<lparr>fill_side = YES, fill_qty = 0, fill_price = 2, fill_ts_ms = 0,
               fill_type = FULL, fill_order_id = None\<rparr> > 1
   \<and> fst (apply_fill 0 \<lparr>fill_side = YES, fill_qty = 0, fill_price = 2, fill_ts_ms = 0,
                        fill_type = FULL, fill_order_id = None\<rparr> (empty_position ''m'' 0.02))
       = None"
  by (simp add: apply_fill_def)

section \<open>Properties of the order book\<close>

text \<open>
  C9, at the failing input. The ask side holds one level of 10 shares at 0.50, a depth
  of 5 in quote units. Asked to fill 100, \<open>effective_price_for_size\<close> returns the average
  price 0.50 of the partial fill, not infinity.
\<close>

theorem effective_price_partial_fill:
  "effective_price_for_size
     \<lparr>ob_token_id = ''t'', bids = [], asks = [\<lparr>lvl_price = 0.5, lvl_size = 10\<rparr>],
      ob_timestamp_ms = 0\<rparr> YES 100 = Inr (Finite 0.5)"
  by (simp add: effective_price_for_size_def Let_def)

section \<open>Properties of the truth engine\<close>

lemmas truth_defs =
  on_event_def is_duplicate_def is_out_of_order_def hash_event_def test_event_def
  test_config_def test_engine_state_def init_truth_state_def on_event_pre_match_def
  on_event_live_def on_event_pending_def enter_pending_confirm_def status_delta_def
  add_confirmation_def should_finalize_def truth_finalize_def winner_payload_def
  dict_get_def Let_def

text \<open>
  C2, at the failing input, the two events of \<open>test_tier_a_single_source_finalizes\<close>:
  \<open>MATCH_STARTED\<close> from opendota (Tier B) at 1000, then \<open>MATCH_ENDED\<close> from grid (Tier A)
  at 5000 with winner \<open>team_a\<close>, on the engine of the test fixture. Whatever the hash and
  the clock, the second call leaves the engine in \<open>PENDING_CONFIRM\<close> (in \<open>LIVE\<close> if the
  two events hash alike and the second is dropped as a duplicate), never in \<open>FINAL\<close>,
  and it returns no \<open>TruthFinal\<close>; \<open>winner_if_final\<close> is \<open>team_a\<close> all the same, the
  confidence of 0.90 being above 0.85.
\<close>

theorem tier_a_single_source_not_final:
  "ts_status (snd (on_event H test_config now2
       (test_event MATCH_ENDED ''grid'' TIER_A 5000 None (winner_payload ''team_a''))
       (snd (on_event H test_config now1
          (test_event MATCH_STARTED ''opendota'' TIER_B 1000 None Map.empty)
          test_engine_state))))
     = (if H MATCH_STARTED 1000 Map.empty = H MATCH_ENDED 5000 (winner_payload ''team_a'')
        then LIVE else PENDING_CONFIRM)
   \<and> (\<forall>f. fst (on_event H test_config now2
              (test_event MATCH_ENDED ''grid'' TIER_A 5000 None (winner_payload ''team_a''))
              (snd (on_event H test_config now1
                 (test_event MATCH_STARTED ''opendota'' TIER_B 1000 None Map.empty)
                 test_engine_state))) \<noteq> Some (Final f))
   \<and> winner_if_final (snd (on_event H test_config now2
       (test_event MATCH_ENDED ''grid'' TIER_A 5000 None (winner_payload ''team_a''))
       (snd (on_event H test_config now1
          (test_event MATCH_STARTED ''opendota'' TIER_B 1000 None Map.empty)
          test_engine_state))))
     = (if H MATCH_STARTED 1000 Map.empty = H MATCH_ENDED 5000 (winner_payload ''team_a'')
        then PNone else PStr ''team_a'')"
  by (simp add: truth_defs winner_if_final_def is_effectively_final_def)

text \<open>
  C3, at the failing input. The configuration of the test fixture with
  \<open>confirm_threshold = 0.99\<close> and \<open>required_sources_for_final = 5\<close>; the match starts and
  three Tier-B sources report the same winner, which brings the confidence to 0.95 in
  \<open>PENDING_CONFIRM\<close>. A fourth, agreeing report from a Tier-C source is processed next:
  the engine is still in \<open>PENDING_CONFIRM\<close> and the confidence has dropped to 0.90.
\<close>

theorem confirmation_lowers_confidence:
  "ts_status (run_events H
      (test_config\<lparr>confirm_threshold := 0.99, required_sources_for_final := 5\<rparr>) clock 0
      [test_event MATCH_STARTED ''opendota'' TIER_B 1000 (Some ''e1'') Map.empty,
       test_event MATCH_ENDED ''opendota'' TIER_B 5000 (Some ''e2'') (winner_payload ''team_a''),
       test_event MATCH_ENDED ''pandascore'' TIER_B 5100 (Some ''e3'') (winner_payload ''team_a''),
       test_event MATCH_ENDED ''abios'' TIER_B 5200 (Some ''e4'') (winner_payload ''team_a'')]
      test_engine_state) = PENDING_CONFIRM
   \<and> confidence (run_events H
      (test_config\<lparr>confirm_threshold := 0.99, required_sources_for_final := 5\<rparr>) clock 0
      [test_event MATCH_STARTED ''opendota'' TIER_B 1000 (Some ''e1'') Map.empty,
       test_event MATCH_ENDED ''opendota'' TIER_B 5000 (Some ''e2'') (winner_payload ''team_a''),
       test_event MATCH_ENDED ''pandascore'' TIER_B 5100 (Some ''e3'') (winner_payload ''team_a''),
       test_event MATCH_ENDED ''abios'' TIER_B 5200 (Some ''e4'') (winner_payload ''team_a'')]
      test_engine_state) = 0.95
   \<and> ts_status (run_events H
      (test_config\<lparr>confirm_threshold := 0.99, required_sources_for_final := 5\<rparr>) clock 0
      [test_event MATCH_STARTED ''opendota'' TIER_B 1000 (Some ''e1'') Map.empty,
       test_event MATCH_ENDED ''opendota'' TIER_B 5000 (Some ''e2'') (winner_payload ''team_a''),
       test_event MATCH_ENDED ''pandascore'' TIER_B 5100 (Some ''e3'') (winner_payload ''team_a''),
       test_event MATCH_ENDED ''abios'' TIER_B 5200 (Some ''e4'') (winner_payload ''team_a''),
       test_event MATCH_ENDED ''liquipedia'' TIER_C 5300 (Some ''e5'') (winner_payload ''team_a'')]
      test_engine_state) = PENDING_CONFIRM
   \<and> confidence (run_events H
      (test_config\<lparr>confirm_threshold := 0.99, required_sources_for_final := 5\<rparr>) clock 0
      [test_event MATCH_STARTED ''opendota'' TIER_B 1000 (Some ''e1'') Map.empty,
       test_event MATCH_ENDED ''opendota'' TIER_B 5000 (Some ''e2'') (winner_payload ''team_a''),
       test_event MATCH_ENDED ''pandascore'' TIER_B 5100 (Some ''e3'') (winner_payload ''team_a''),
       test_event MATCH_ENDED ''abios'' TIER_B 5200 (Some ''e4'') (winner_payload ''team_a''),
       test_event MATCH_ENDED ''liquipedia'' TIER_C 5300 (Some ''e5'') (winner_payload ''team_a'')]
      test_engine_state) = 0.90"
  by (simp add: truth_defs)

lemma is_duplicate_fields:
  "ts_status (snd (is_duplicate H e st)) = ts_status st"
  "winner_team_id (snd (is_duplicate H e st)) = winner_team_id st"
  by (simp_all add: is_duplicate_def Let_def)

lemma is_out_of_order_fields:
  "ts_status (snd (is_out_of_order cfg e st)) = ts_status st"
  "winner_team_id (snd (is_out_of_order cfg e st)) = winner_team_id st"
  by (simp_all add: is_out_of_order_def)

lemma admission_fields:
  "ts_status (snd (is_out_of_order cfg e (snd (is_duplicate H e st)))) = ts_status st"
  "confidence (snd (is_out_of_order cfg e (snd (is_duplicate H e st)))) = confidence st"
  "confidence (snd (is_duplicate H e st)) = confidence st"
  by (simp_all add: is_out_of_order_def is_duplicate_def Let_def)

text \<open>An event that is not admitted changes neither the status nor the confidence.\<close>

lemma on_event_dropped:
  assumes "\<not> admitted H cfg e st"
  shows "ts_status (snd (on_event H cfg now e st)) = ts_status st"
    and "confidence (snd (on_event H cfg now e st)) = confidence st"
proof -
  show "ts_status (snd (on_event H cfg now e st)) = ts_status st"
  proof (cases "fst (is_duplicate H e st)")
    case True
    then show ?thesis by (simp add: on_event_def split_beta is_duplicate_fields)
  next
    case False
    with assms have "fst (is_out_of_order cfg e (snd (is_duplicate H e st)))"
      by (simp add: admitted_def)
    with False show ?thesis by (simp add: on_event_def split_beta admission_fields)
  qed
  show "confidence (snd (on_event H cfg now e st)) = confidence st"
  proof (cases "fst (is_duplicate H e st)")
    case True
    then show ?thesis by (simp add: on_event_def split_beta admission_fields)
  next
    case False
    with assms have "fst (is_out_of_order cfg e (snd (is_duplicate H e st)))"
      by (simp add: admitted_def)
    with False show ?thesis by (simp add: on_event_def split_beta admission_fields)
  qed
qed

lemma add_confirmation_grows:
  "confidence st \<le> 0.90 \<Longrightarrow> confidence st \<le> confidence (add_confirmation src tier st)"
  by (simp add: add_confirmation_def Let_def min_def)

lemma on_event_pending_grows:
  assumes "confidence st \<le> 0.90"
    and "ts_status (snd (on_event_pending cfg now e st)) = PENDING_CONFIRM"
  shows "confidence st \<le> confidence (snd (on_event_pending cfg now e st))"
  using assms add_confirmation_grows [OF assms(1), of "me_source e" "me_source_tier e"]
  by (simp add: on_event_pending_def Let_def split_beta truth_finalize_def split: if_splits)

text \<open>
  Where the drop of C3 cannot happen: from a confidence of at most 0.90, an event that
  leaves the engine in \<open>PENDING_CONFIRM\<close> does not lower the confidence; and with
  \<open>confirm_threshold\<close> at most 0.90, as by default, the confidence of a pending engine
  never exceeds 0.90.
\<close>

lemma pending_confidence_monotone:
  assumes "ts_status st = PENDING_CONFIRM" and "confidence st \<le> 0.90"
    and "ts_status (snd (on_event H cfg now e st)) = PENDING_CONFIRM"
  shows "confidence st \<le> confidence (snd (on_event H cfg now e st))"
proof (cases "admitted H cfg e st")
  case False
  then show ?thesis by (simp add: on_event_dropped)
next
  case True
  let ?st2 = "snd (is_out_of_order cfg e (snd (is_duplicate H e st)))"
  let ?st3 = "?st2\<lparr>last_event_ms := max (last_event_ms ?st2) (me_timestamp_ms e)\<rparr>"
  have eq: "on_event H cfg now e st = on_event_pending cfg now e ?st3"
    using True assms(1)
    by (simp add: on_event_def admitted_def split_beta Let_def admission_fields)
  have c: "confidence ?st3 = confidence st" by (simp add: admission_fields)
  from on_event_pending_grows [of ?st3 cfg now e] assms(2,3) show ?thesis
    by (simp add: eq c)
qed

lemma pending_confidence_bounded:
  assumes "confirm_threshold cfg \<le> 0.90"
    and "ts_status st = PENDING_CONFIRM \<longrightarrow> confidence st \<le> 0.90"
    and "ts_status (snd (on_event H cfg now e st)) = PENDING_CONFIRM"
  shows "confidence (snd (on_event H cfg now e st)) \<le> 0.90"
proof (cases "admitted H cfg e st")
  case False
  then show ?thesis using assms by (simp add: on_event_dropped)
next
  case True
  then show ?thesis using assms
    by (auto simp add: on_event_def admitted_def split_beta Let_def admission_fields
        on_event_pre_match_def on_event_live_def on_event_paused_def on_event_pending_def
        on_event_final_def enter_pending_confirm_def should_finalize_def truth_finalize_def
        add_confirmation_def
        split: TruthStatus.splits MatchEventType.splits if_splits)
qed

text \<open>
  C4. When the engine is in \<open>PENDING_CONFIRM\<close> and receives an admitted \<open>MATCH_ENDED\<close>
  whose payload winner differs from the recorded \<open>winner_team_id\<close>, it moves to \<open>LIVE\<close>,
  clears \<open>winner_team_id\<close>, \<open>ended_at_ms\<close> and \<open>sources_confirming\<close>, sets the confidence
  to 0 and returns a \<open>TruthDelta\<close> whose reason is \<open>contradiction\<close>.
\<close>

theorem contradiction_reverts_to_live:
  assumes "ts_status st = PENDING_CONFIRM"
    and "me_event_type event = MATCH_ENDED"
    and "admitted H cfg event st"
    and "dict_get (me_payload event) ''winner_team_id'' PNone \<noteq> winner_team_id st"
  shows "ts_status (snd (on_event H cfg now event st)) = LIVE
         \<and> winner_team_id (snd (on_event H cfg now event st)) = PNone
         \<and> ended_at_ms (snd (on_event H cfg now event st)) = None
         \<and> sources_confirming (snd (on_event H cfg now event st)) = {}
         \<and> confidence (snd (on_event H cfg now event st)) = 0
         \<and> (\<exists>d. fst (on_event H cfg now event st) = Some (Delta d)
                \<and> td_reason d = Some ''contradiction'')"
  using assms
  by (simp add: on_event_def admitted_def split_beta Let_def is_duplicate_fields
      is_out_of_order_fields on_event_pending_def status_delta_def)

text \<open>
  Scenario 5 of the specification: the engine holds \<open>team_a\<close> as the winner reported by
  opendota, and pandascore reports \<open>team_b\<close> under a new \<open>source_event_id\<close>.
\<close>

theorem contradiction_reverts_to_live_witness:
  "ts_status (snd (on_event (\<lambda>ty ts pl. ''h'') test_config 0
       (test_event MATCH_ENDED ''pandascore'' TIER_B 5100 (Some ''ps_456'')
          (winner_payload ''team_b''))
       (test_engine_state\<lparr>ts_status := PENDING_CONFIRM, confidence := 0.80,
          winner_team_id := PStr ''team_a'', last_event_ms := 5000,
          ended_at_ms := Some 5000, seen_event_ids := {''h1'', ''h2''},
          sources_confirming := {''opendota''}\<rparr>))) = LIVE
   \<and> confidence (snd (on_event (\<lambda>ty ts pl. ''h'') test_config 0
       (test_event MATCH_ENDED ''pandascore'' TIER_B 5100 (Some ''ps_456'')
          (winner_payload ''team_b''))
       (test_engine_state\<lparr>ts_status := PENDING_CONFIRM, confidence := 0.80,
          winner_team_id := PStr ''team_a'', last_event_ms := 5000,
          ended_at_ms := Some 5000, seen_event_ids := {''h1'', ''h2''},
          sources_confirming := {''opendota''}\<rparr>))) = 0"
proof -
  let ?st = "test_engine_state\<lparr>ts_status := PENDING_CONFIRM, confidence := 0.80,
          winner_team_id := PStr ''team_a'', last_event_ms := 5000,
          ended_at_ms := Some 5000, seen_event_ids := {''h1'', ''h2''},
          sources_confirming := {''opendota''}\<rparr>"
  let ?ev = "test_event MATCH_ENDED ''pandascore'' TIER_B 5100 (Some ''ps_456'')
          (winner_payload ''team_b'')"
  have a: "ts_status ?st = PENDING_CONFIRM" by simp
  have b: "me_event_type ?ev = MATCH_ENDED" by (simp add: test_event_def)
  have c: "admitted (\<lambda>ty ts pl. ''h'') test_config ?ev ?st"
    by (simp add: admitted_def truth_defs)
  have d: "dict_get (me_payload ?ev) ''winner_team_id'' PNone \<noteq> winner_team_id ?st"
    by (simp add: truth_defs)
  from contradiction_reverts_to_live [OF a b c d, of 0] show ?thesis by blast
qed

lemma is_duplicate_seen:
  "seen_event_ids (snd (is_duplicate H e st)) = insert (dedup_key H e) (seen_event_ids st)"
  by (cases "me_source_event_id e")
     (auto simp add: is_duplicate_def dedup_key_def Let_def)

lemma is_duplicate_known:
  "dedup_key H e \<in> seen_event_ids st \<Longrightarrow> is_duplicate H e st = (True, st)"
  by (cases "me_source_event_id e")
     (auto simp add: is_duplicate_def dedup_key_def Let_def split: if_splits)

lemma is_out_of_order_seen:
  "seen_event_ids (snd (is_out_of_order cfg e st)) = seen_event_ids st"
  by (simp add: is_out_of_order_def)

lemma enter_pending_confirm_seen:
  "seen_event_ids (snd (enter_pending_confirm e st)) = seen_event_ids st"
  by (simp add: enter_pending_confirm_def Let_def)

lemma on_event_pre_match_seen:
  "seen_event_ids (snd (on_event_pre_match e st)) = seen_event_ids st"
  by (simp add: on_event_pre_match_def Let_def split: MatchEventType.splits)

lemma on_event_live_seen:
  "seen_event_ids (snd (on_event_live e st)) = seen_event_ids st"
  using enter_pending_confirm_seen [of e st]
  by (simp add: on_event_live_def Let_def split_beta split: MatchEventType.splits)

lemma on_event_paused_seen:
  "seen_event_ids (snd (on_event_paused e st)) = seen_event_ids st"
  using enter_pending_confirm_seen [of e st]
  by (simp add: on_event_paused_def Let_def split_beta split: MatchEventType.splits)

lemma add_confirmation_seen:
  "seen_event_ids (add_confirmation src tier st) = seen_event_ids st"
  by (simp add: add_confirmation_def Let_def)

lemma on_event_pending_seen:
  "seen_event_ids (snd (on_event_pending cfg now e st)) = seen_event_ids st"
  by (simp add: on_event_pending_def truth_finalize_def add_confirmation_seen Let_def
      split_beta)

text \<open>Every call of \<open>on_event\<close> records the key of its event, and nothing else.\<close>

lemma on_event_seen:
  "seen_event_ids (snd (on_event H cfg now e st)) = insert (dedup_key H e) (seen_event_ids st)"
  by (simp add: on_event_def Let_def split_beta is_duplicate_seen is_out_of_order_seen
      on_event_pre_match_seen on_event_live_seen on_event_paused_seen on_event_pending_seen
      on_event_final_def split: TruthStatus.splits)

text \<open>An event whose key is recorded is dropped and leaves the whole state as it is.\<close>

lemma on_event_known:
  "dedup_key H e \<in> seen_event_ids st \<Longrightarrow> on_event H cfg now e st = (None, st)"
  by (simp add: on_event_def is_duplicate_known)

lemma run_events_seen:
  "seen_event_ids (run_events H cfg clock k es st) = dedup_key H ` set es \<union> seen_event_ids st"
  by (induction es arbitrary: k st) (auto simp add: on_event_seen)

lemma run_events_known:
  "dedup_key H ` set es \<subseteq> seen_event_ids st \<Longrightarrow> run_events H cfg clock k es st = st"
  by (induction es arbitrary: k) (auto simp add: on_event_known)

lemma run_events_append:
  "run_events H cfg clock k (xs @ ys) st
     = run_events H cfg clock (k + length xs) ys (run_events H cfg clock k xs st)"
  by (induction xs arbitrary: k st) auto

text \<open>
  C5. The truth engine is idempotent under replay: for every list of events \<open>es\<close>, every
  configuration, hash, clock and starting state, processing \<open>es\<close> and then the same
  events again leaves the engine in the state that processing \<open>es\<close> once leaves it in.
\<close>

theorem replay_idempotent:
  "run_events H cfg clock k (es @ es) st = run_events H cfg clock k es st"
  by (simp add: run_events_append run_events_known run_events_seen)

section \<open>Properties of the trading engine\<close>

text \<open>
  C8 (as amended). Leg selection on an order-book tick: if \<open>q_yes - q_no > 20\<close> the side
  is NO; if \<open>q_yes - q_no < -20\<close> the side is YES; otherwise no side when both best asks
  are absent, the side that has an ask when only one has, and else YES when the YES ask
  is strictly lower and NO when it is not, so that equal asks give NO.
\<close>

theorem select_leg_to_buy_spec:
  "select_leg_to_buy orderbook_yes orderbook_no self
     = spec_select_leg (q_yes (tr_position (eng_state self)))
         (q_no (tr_position (eng_state self)))
         (best_ask orderbook_yes) (best_ask orderbook_no)"
  by (auto simp add: select_leg_to_buy_def spec_select_leg_def Let_def split: option.splits)

text \<open>
  C8 as stated fails on the tie: a new engine with an empty position and both best asks
  at 0.50 selects NO.
\<close>

theorem select_leg_tie_counterexample:
  "best_ask \<lparr>ob_token_id = ''yes'', bids = [], asks = [\<lparr>lvl_price = 0.5, lvl_size = 10\<rparr>],
             ob_timestamp_ms = 0\<rparr>
     = best_ask \<lparr>ob_token_id = ''no'', bids = [], asks = [\<lparr>lvl_price = 0.5, lvl_size = 10\<rparr>],
                 ob_timestamp_ms = 0\<rparr>
   \<and> select_leg_to_buy
       \<lparr>ob_token_id = ''yes'', bids = [], asks = [\<lparr>lvl_price = 0.5, lvl_size = 10\<rparr>],
        ob_timestamp_ms = 0\<rparr>
       \<lparr>ob_token_id = ''no'', bids = [], asks = [\<lparr>lvl_price = 0.5, lvl_size = 10\<rparr>],
        ob_timestamp_ms = 0\<rparr>
       (new_engine 0 ''m'' default_trading_config None) = Some NO"
  by (simp add: select_leg_to_buy_def best_ask_def new_engine_def empty_position_def Let_def)











lemma check_circuit_breaker_orders:
  "open_orders (eng_state (snd (check_circuit_breaker now self))) = open_orders (eng_state self)"
  by (simp add: check_circuit_breaker_def halt_def transition_to_def Let_def
      split: option.splits)

text \<open>
  The keys of \<open>open_orders\<close> are distinct in a new engine, where there are none, and
  every call keeps them so: the association list stays a dictionary.
\<close>

lemma open_orders_stay_distinct:
  assumes "distinct (map fst (open_orders (eng_state self)))"
  shows "distinct (map fst (open_orders (eng_state (after_call now call self))))"
proof (cases call)
  case (OnFill side qty price oid)
  then show ?thesis using assms
    by (simp add: on_fill_def Let_def status_def handle_building_fill_def
        handle_temporal_fill_def transition_to_def AList.distinct_delete
        split: prod.splits option.splits TradingStatus.splits)
next
  case (OnOrderRejected oid reason)
  then show ?thesis using assms
    by (simp add: on_order_rejected_def Let_def check_circuit_breaker_orders
        AList.distinct_update split: option.splits)
next
  case (OnOrderSuccess oid)
  then show ?thesis using assms
    by (simp add: on_order_success_def Let_def AList.distinct_update split: option.splits)
next
  case (OnCancelFailure oid)
  then show ?thesis using assms
    by (simp add: on_cancel_failure_def Let_def check_circuit_breaker_orders)
next
  case (OnCancelSuccess oid)
  then show ?thesis using assms
    by (simp add: on_cancel_success_def Let_def AList.distinct_delete)
next
  case (OnOrderbookUpdate y n)
  then show ?thesis using assms
    by (simp add: on_orderbook_update_def Let_def split_beta check_circuit_breaker_orders
        handle_idle_orderbook_def handle_building_orderbook_def handle_temporal_orderbook_def
        transition_to_def split: TradingStatus.splits sum.splits option.splits)
next
  case (OnTick now_ms)
  then show ?thesis using assms
    by (simp add: on_tick_def Let_def transition_to_def split: TradingStatus.splits)
next
  case (TrackOrder order)
  then show ?thesis using assms
    by (simp add: track_order_def AList.distinct_update)
qed (use assms in \<open>simp_all add: halt_def resume_from_halt_def finalize_def resolve_def
      transition_to_def Let_def\<close>)


lemmas eng_defs =
  new_engine_def default_trading_config_def empty_position_def status_def
  on_order_rejected_def check_circuit_breaker_def halt_def transition_to_def
  cancel_all_orders_def track_order_def test_order_def spec_cancel_intents_def resolve_def
  finalize_def on_tick_def Let_def



lemma resolved_stays:
  assumes "status self = RESOLVED" and "avoids_halt call self"
  shows "status (after_call now call self) = RESOLVED"
proof (cases call)
  case (OnFill side qty price oid)
  then show ?thesis using assms
    by (simp add: on_fill_def status_def Let_def apply_fill_def split: prod.splits option.splits)
next
  case (OnOrderRejected oid reason)
  then show ?thesis using assms
    by (simp add: on_order_rejected_def status_def Let_def check_circuit_breaker_def
        split: option.splits)
next
  case (OnCancelFailure oid)
  then show ?thesis using assms
    by (simp add: on_cancel_failure_def status_def Let_def check_circuit_breaker_def)
next
  case (OnOrderbookUpdate y n)
  then show ?thesis using assms
    by (simp add: on_orderbook_update_def status_def Let_def check_circuit_breaker_def)
qed (use assms in \<open>simp_all add: resume_from_halt_def finalize_def resolve_def
      transition_to_def status_def on_order_success_def on_cancel_success_def on_tick_def
      track_order_def Let_def split: option.splits\<close>)

lemma halted_stays:
  assumes "status self = HALT"
  shows "status (after_call now call self)
           = (if call = ResumeFromHalt then IDLE else if call = Resolve then RESOLVED else HALT)"
proof (cases call)
  case (OnFill side qty price oid)
  then show ?thesis using assms
    by (simp add: on_fill_def status_def Let_def apply_fill_def split: prod.splits option.splits)
next
  case (OnOrderRejected oid reason)
  then show ?thesis using assms
    by (simp add: on_order_rejected_def status_def Let_def check_circuit_breaker_def
        split: option.splits)
next
  case (OnCancelFailure oid)
  then show ?thesis using assms
    by (simp add: on_cancel_failure_def status_def Let_def check_circuit_breaker_def)
next
  case (OnOrderbookUpdate y n)
  then show ?thesis using assms
    by (simp add: on_orderbook_update_def status_def Let_def check_circuit_breaker_def)
qed (use assms in \<open>simp_all add: halt_def resume_from_halt_def finalize_def resolve_def
      transition_to_def status_def on_order_success_def on_cancel_success_def on_tick_def
      track_order_def Let_def split: option.splits\<close>)

text \<open>
  C7 (as amended). Once the status of an engine \<open>r\<close> is \<open>RESOLVED\<close>, no call that stays
  clear of \<open>halt\<close> changes it: \<open>resume_from_halt\<close>, \<open>finalize\<close>, \<open>resolve\<close>, \<open>on_fill\<close>,
  \<open>on_tick\<close>, \<open>on_order_success\<close>, \<open>on_cancel_success\<close>, \<open>track_order\<close>, and
  \<open>on_orderbook_update\<close>, \<open>on_order_rejected\<close> and \<open>on_cancel_failure\<close> while the circuit
  breaker does not trip. An engine \<open>h\<close> in \<open>HALT\<close> stays in \<open>HALT\<close> under every call
  except \<open>resume_from_halt\<close>, which takes it to \<open>IDLE\<close>, and \<open>resolve\<close>, which takes it to
  \<open>RESOLVED\<close>.
\<close>

theorem resolved_and_halt_exits:
  assumes "status r = RESOLVED" and "avoids_halt call_r r" and "status h = HALT"
  shows "status (after_call now call_r r) = RESOLVED
         \<and> status (after_call now call_h h)
             = (if call_h = ResumeFromHalt then IDLE
                else if call_h = Resolve then RESOLVED else HALT)"
  using assms by (simp add: resolved_stays halted_stays)

theorem resolved_and_halt_exits_witness:
  "status (after_call 2 Finalize (resolve 1 (new_engine 0 ''m'' default_trading_config None)))
     = RESOLVED
   \<and> status (after_call 2 (OnTick 5)
        (snd (halt 1 (Text ''manual'') (new_engine 0 ''m'' default_trading_config None))))
     = HALT"
proof -
  let ?r = "resolve 1 (new_engine 0 ''m'' default_trading_config None)"
  let ?h = "snd (halt 1 (Text ''manual'') (new_engine 0 ''m'' default_trading_config None))"
  have a: "status ?r = RESOLVED" by (simp add: eng_defs)
  have b: "avoids_halt Finalize ?r" by simp
  have c: "status ?h = HALT" by (simp add: eng_defs)
  from resolved_and_halt_exits [OF a b c, of 2 "OnTick 5"] show ?thesis by simp
qed

text \<open>
  C7 as stated fails in both halves: \<open>resolve\<close> takes a halted engine out of \<open>HALT\<close>, to
  \<open>RESOLVED\<close>, and \<open>halt\<close> takes a resolved engine to \<open>HALT\<close>.
\<close>

theorem resolve_leaves_halt_counterexample:
  "status (snd (halt 1 (Text ''manual'') (new_engine 0 ''m'' default_trading_config None)))
     = HALT
   \<and> status (after_call 2 Resolve
        (snd (halt 1 (Text ''manual'') (new_engine 0 ''m'' default_trading_config None))))
     = RESOLVED
   \<and> status (resolve 1 (new_engine 0 ''m'' default_trading_config None)) = RESOLVED
   \<and> status (after_call 2 (Halt (Text ''manual''))
        (resolve 1 (new_engine 0 ''m'' default_trading_config None)))
     = HALT"
  by (simp add: eng_defs)

end
